theory Spec2Isabelle
  imports Complex_Main
begin

section \<open>Conventions of the embedding\<close>

text \<open>
  A Python \<open>float\<close> is an IEEE 754 binary64 number and every operation on floats rounds
  its exact result to the nearest one. Two parts of the program show that rounding in the
  values they return: the running sum of \<open>MovingAverage\<close> and the truncated blend of
  \<open>ZoneMapper\<close>. There the embedding rounds every operation the source performs
  (\<open>fadd\<close>, \<open>fsub\<close>, \<open>fmul\<close>, \<open>fdiv\<close>, \<open>float_of_int\<close> below), and the floats
  are the reals \<open>x\<close> with \<open>fl x = x\<close>. In the other parts (the exponential filters, the
  one-euro filter, the pinch detector, the gesture engine) a float is read as a
  \<^typ>\<open>real\<close> and the arithmetic the source writes down is carried out as written.
  Infinities, NaN and overflow are outside the model. A Python \<open>int\<close> is an
  \<^typ>\<open>int\<close>.

  A method that mutates \<open>self\<close> takes the object as its last argument and returns the
  updated object next to the value it returns. An exception is a value of
  \<open>py_error\<close>; where the source may raise after having mutated \<open>self\<close>, the
  (partially updated) object is returned together with the error.
\<close>

datatype py_error = ValueError | IndexError | ZeroDivisionError | TypeError | AttributeError

section \<open>IEEE 754 binary64 arithmetic\<close>

text \<open>Rounding to the nearest integer, a tie going to the even one.\<close>

definition round_half_even :: "real \<Rightarrow> int" where
  "round_half_even q =
     (let f = \<lfloor>q\<rfloor>; r = q - real_of_int f
      in if r < 1/2 then f else if r > 1/2 then f + 1 else if even f then f else f + 1)"

text \<open>
  \<open>fl x\<close> is the double nearest to \<open>x\<close>, ties to even: with \<open>e\<close> the binary exponent of
  \<open>x\<close> (not below -1022, where the subnormal numbers begin) the doubles around \<open>x\<close> are
  the integer multiples of \<open>2 powr (e - 52)\<close>.
\<close>

definition fl :: "real \<Rightarrow> real" where
  "fl x =
     (if x = 0 then 0
      else (let e = max \<lfloor>log 2 \<bar>x\<bar>\<rfloor> (- 1022);
                u = 2 powr (real_of_int e - 52)
            in real_of_int (round_half_even (x / u)) * u))"

text \<open>The operations of Python on floats: the exact result, rounded.\<close>

definition fadd :: "real \<Rightarrow> real \<Rightarrow> real" where
  "fadd x y = fl (x + y)"

definition fsub :: "real \<Rightarrow> real \<Rightarrow> real" where
  "fsub x y = fl (x - y)"

definition fmul :: "real \<Rightarrow> real \<Rightarrow> real" where
  "fmul x y = fl (x * y)"

definition fdiv :: "real \<Rightarrow> real \<Rightarrow> real" where
  "fdiv x y = fl (x / y)"

text \<open>The conversion Python applies to an \<open>int\<close> operand of a float operation.\<close>

definition float_of_int :: "int \<Rightarrow> real" where
  "float_of_int i = fl (real_of_int i)"

section \<open>utils/smoothing.py\<close>

subsection \<open>ExponentialMovingAverage\<close>

record ExponentialMovingAverage =
  ema_alpha :: real
  ema_value :: "real option"
  ema_initialized :: bool

definition ExponentialMovingAverage_init :: "real \<Rightarrow> py_error + ExponentialMovingAverage" where
  "ExponentialMovingAverage_init alpha =
     (if \<not> (0 \<le> alpha \<and> alpha \<le> 1) then Inl ValueError
      else Inr \<lparr>ema_alpha = alpha, ema_value = None, ema_initialized = False\<rparr>)"

definition ExponentialMovingAverage_update ::
  "real \<Rightarrow> ExponentialMovingAverage \<Rightarrow> (py_error + real) \<times> ExponentialMovingAverage" where
  "ExponentialMovingAverage_update new_value s =
     (if \<not> ema_initialized s
      then (Inr new_value, s\<lparr>ema_value := Some new_value, ema_initialized := True\<rparr>)
      else (case ema_value s of
              None \<Rightarrow> (Inl TypeError, s)
            | Some prev \<Rightarrow>
                (let v = ema_alpha s * new_value + (1 - ema_alpha s) * prev
                 in (Inr v, s\<lparr>ema_value := Some v\<rparr>))))"

definition ExponentialMovingAverage_reset :: "ExponentialMovingAverage \<Rightarrow> ExponentialMovingAverage" where
  "ExponentialMovingAverage_reset s = s\<lparr>ema_value := None, ema_initialized := False\<rparr>"

definition ExponentialMovingAverage_set_alpha ::
  "real \<Rightarrow> ExponentialMovingAverage \<Rightarrow> py_error + ExponentialMovingAverage" where
  "ExponentialMovingAverage_set_alpha alpha s =
     (if \<not> (0 \<le> alpha \<and> alpha \<le> 1) then Inl ValueError
      else Inr (s\<lparr>ema_alpha := alpha\<rparr>))"

subsection \<open>MovingAverage\<close>

text \<open>
  \<open>collections.deque(maxlen=n)\<close>, oldest element first: \<open>append\<close> on a full deque
  drops the element on the left. The running sum \<open>_sum\<close> is a float: the subtraction of
  the oldest value, the addition of the new one and the final division each round.
\<close>

definition deque_append :: "int \<Rightarrow> 'a list \<Rightarrow> 'a \<Rightarrow> 'a list" where
  "deque_append maxlen xs x =
     (let ys = xs @ [x] in if int (length ys) > maxlen then tl ys else ys)"

record MovingAverage =
  ma_window_size :: int
  ma_values :: "real list"
  ma_sum :: real

definition MovingAverage_init :: "int \<Rightarrow> py_error + MovingAverage" where
  "MovingAverage_init window_size =
     (if window_size < 1 then Inl ValueError
      else Inr \<lparr>ma_window_size = window_size, ma_values = [], ma_sum = 0\<rparr>)"

definition MovingAverage_update ::
  "real \<Rightarrow> MovingAverage \<Rightarrow> (py_error + real) \<times> MovingAverage" where
  "MovingAverage_update new_value s =
     (if int (length (ma_values s)) = ma_window_size s \<and> ma_values s = []
      then (Inl IndexError, s)
      else
        (let sum1 = (if int (length (ma_values s)) = ma_window_size s
                     then fsub (ma_sum s) (hd (ma_values s)) else ma_sum s);
             vals = deque_append (ma_window_size s) (ma_values s) new_value;
             sum2 = fadd sum1 new_value;
             s' = s\<lparr>ma_values := vals, ma_sum := sum2\<rparr>
         in if vals = [] then (Inl ZeroDivisionError, s')
            else (Inr (fdiv sum2 (float_of_int (int (length vals)))), s')))"

definition MovingAverage_reset :: "MovingAverage \<Rightarrow> MovingAverage" where
  "MovingAverage_reset s = s\<lparr>ma_values := [], ma_sum := 0\<rparr>"

subsection \<open>DoubleExponentialSmoothing\<close>

record DoubleExponentialSmoothing =
  des_alpha :: real
  des_beta :: real
  des_level :: "real option"
  des_trend :: "real option"
  des_initialized :: bool

text \<open>The constructor stores its arguments as they are; it has no check and cannot raise.\<close>

definition DoubleExponentialSmoothing_init ::
  "real \<Rightarrow> real \<Rightarrow> py_error + DoubleExponentialSmoothing" where
  "DoubleExponentialSmoothing_init alpha beta =
     Inr \<lparr>des_alpha = alpha, des_beta = beta, des_level = None, des_trend = None,
          des_initialized = False\<rparr>"

definition DoubleExponentialSmoothing_update ::
  "real \<Rightarrow> DoubleExponentialSmoothing \<Rightarrow> (py_error + real) \<times> DoubleExponentialSmoothing" where
  "DoubleExponentialSmoothing_update new_value s =
     (if \<not> des_initialized s
      then (Inr (new_value + 0),
            s\<lparr>des_level := Some new_value, des_trend := Some 0, des_initialized := True\<rparr>)
      else (case (des_level s, des_trend s) of
              (Some prev_level, Some trend) \<Rightarrow>
                (let level = des_alpha s * new_value + (1 - des_alpha s) * (prev_level + trend);
                     trend' = des_beta s * (level - prev_level) + (1 - des_beta s) * trend
                 in (Inr (level + trend'), s\<lparr>des_level := Some level, des_trend := Some trend'\<rparr>))
            | _ \<Rightarrow> (Inl TypeError, s)))"

definition DoubleExponentialSmoothing_reset ::
  "DoubleExponentialSmoothing \<Rightarrow> DoubleExponentialSmoothing" where
  "DoubleExponentialSmoothing_reset s =
     s\<lparr>des_level := None, des_trend := None, des_initialized := False\<rparr>"

text \<open>A run of \<open>update\<close> calls on one object: the result of each call, in order.\<close>

fun MovingAverage_updates ::
  "MovingAverage \<Rightarrow> real list \<Rightarrow> (py_error + real) list \<times> MovingAverage" where
  "MovingAverage_updates s [] = ([], s)"
| "MovingAverage_updates s (x # xs) =
     (let (r, s1) = MovingAverage_update x s;
          (rs, s2) = MovingAverage_updates s1 xs
      in (r # rs, s2))"

text \<open>
  The arithmetic mean of the last \<open>min (length ys) n\<close> elements of \<open>ys\<close>, in exact
  arithmetic.
\<close>

definition window_mean :: "nat \<Rightarrow> real list \<Rightarrow> real" where
  "window_mean n ys = sum_list (drop (length ys - n) ys) / real (min (length ys) n)"

subsection \<open>OneEuroFilter\<close>

record OneEuroFilter =
  oef_min_cutoff :: real
  oef_beta :: real
  oef_d_cutoff :: real
  oef_x_filter :: "ExponentialMovingAverage option"
  oef_dx_filter :: "ExponentialMovingAverage option"
  oef_last_value :: "real option"
  oef_last_time :: "real option"

definition OneEuroFilter_init :: "real \<Rightarrow> real \<Rightarrow> real \<Rightarrow> OneEuroFilter" where
  "OneEuroFilter_init min_cutoff beta d_cutoff =
     \<lparr>oef_min_cutoff = min_cutoff, oef_beta = beta, oef_d_cutoff = d_cutoff,
      oef_x_filter = None, oef_dx_filter = None, oef_last_value = None, oef_last_time = None\<rparr>"

text \<open>\<open>_alpha\<close>: a float division by zero raises \<open>ZeroDivisionError\<close>.\<close>

definition OneEuroFilter_alpha :: "real \<Rightarrow> real \<Rightarrow> py_error + real" where
  "OneEuroFilter_alpha cutoff dt =
     (if 2 * pi * cutoff = 0 then Inl ZeroDivisionError
      else (let tau = 1 / (2 * pi * cutoff)
            in if dt = 0 \<or> 1 + tau / dt = 0 then Inl ZeroDivisionError
               else Inr (1 / (1 + tau / dt))))"

text \<open>
  The part of \<open>update\<close> after the test \<open>dt <= 0\<close> (estimate and filter the derivative,
  adapt the cutoff, filter the value). The two inner filters are distinct objects;
  what a failing step has already written to them stays written.
\<close>

definition OneEuroFilter_filter ::
  "real \<Rightarrow> real \<Rightarrow> real \<Rightarrow> OneEuroFilter \<Rightarrow> (py_error + real option) \<times> OneEuroFilter" where
  "OneEuroFilter_filter val timestamp dt s =
     (case oef_last_value s of
        None \<Rightarrow> (Inl TypeError, s)
      | Some lv \<Rightarrow>
     (let dx = (val - lv) / dt in
      case OneEuroFilter_alpha (oef_d_cutoff s) dt of
        Inl e \<Rightarrow> (Inl e, s)
      | Inr d_alpha \<Rightarrow>
     (case oef_dx_filter s of
        None \<Rightarrow> (Inl AttributeError, s)
      | Some dxf \<Rightarrow>
     (case ExponentialMovingAverage_set_alpha d_alpha dxf of
        Inl e \<Rightarrow> (Inl e, s)
      | Inr dxf1 \<Rightarrow>
     (case ExponentialMovingAverage_update dx dxf1 of
        (Inl e, dxf2) \<Rightarrow> (Inl e, s\<lparr>oef_dx_filter := Some dxf2\<rparr>)
      | (Inr dx_hat, dxf2) \<Rightarrow>
     (let s1 = s\<lparr>oef_dx_filter := Some dxf2\<rparr>;
          cutoff = oef_min_cutoff s + oef_beta s * \<bar>dx_hat\<bar>
      in case OneEuroFilter_alpha cutoff dt of
        Inl e \<Rightarrow> (Inl e, s1)
      | Inr x_alpha \<Rightarrow>
     (case oef_x_filter s of
        None \<Rightarrow> (Inl AttributeError, s1)
      | Some xf \<Rightarrow>
     (case ExponentialMovingAverage_set_alpha x_alpha xf of
        Inl e \<Rightarrow> (Inl e, s1)
      | Inr xf1 \<Rightarrow>
     (case ExponentialMovingAverage_update val xf1 of
        (Inl e, xf2) \<Rightarrow> (Inl e, s1\<lparr>oef_x_filter := Some xf2\<rparr>)
      | (Inr x_hat, xf2) \<Rightarrow>
          (Inr (Some x_hat),
           s1\<lparr>oef_x_filter := Some xf2, oef_last_value := Some x_hat,
              oef_last_time := Some timestamp\<rparr>))))))))))"

text \<open>
  \<open>update\<close> returns \<open>self._last_value\<close> as it is when \<open>dt <= 0\<close>; that attribute is
  optional, so the returned value is an option (\<open>None\<close> is Python's \<open>None\<close>).
\<close>

definition OneEuroFilter_update ::
  "real \<Rightarrow> real \<Rightarrow> OneEuroFilter \<Rightarrow> (py_error + real option) \<times> OneEuroFilter" where
  "OneEuroFilter_update val timestamp s =
     (case oef_last_time s of
        None \<Rightarrow>
          (case (ExponentialMovingAverage_init (1/2), ExponentialMovingAverage_init (1/2)) of
             (Inr xf, Inr dxf) \<Rightarrow>
               (Inr (Some val),
                s\<lparr>oef_last_value := Some val, oef_last_time := Some timestamp,
                  oef_x_filter := Some xf, oef_dx_filter := Some dxf\<rparr>)
           | _ \<Rightarrow> (Inl ValueError, s\<lparr>oef_last_value := Some val, oef_last_time := Some timestamp\<rparr>))
      | Some last_time \<Rightarrow>
          (let dt = timestamp - last_time
           in if dt \<le> 0 then (Inr (oef_last_value s), s)
              else OneEuroFilter_filter val timestamp dt s))"

definition OneEuroFilter_reset :: "OneEuroFilter \<Rightarrow> OneEuroFilter" where
  "OneEuroFilter_reset s =
     s\<lparr>oef_x_filter := None, oef_dx_filter := None, oef_last_value := None,
       oef_last_time := None\<rparr>"

text \<open>The states a filter can be in: constructed, then any calls of \<open>update\<close> and \<open>reset\<close>.\<close>

inductive OneEuroFilter_reachable :: "OneEuroFilter \<Rightarrow> bool" where
  reach_init: "OneEuroFilter_reachable (OneEuroFilter_init min_cutoff beta d_cutoff)"
| reach_update: "OneEuroFilter_reachable s \<Longrightarrow>
     OneEuroFilter_reachable (snd (OneEuroFilter_update val timestamp s))"
| reach_reset: "OneEuroFilter_reachable s \<Longrightarrow> OneEuroFilter_reachable (OneEuroFilter_reset s)"

section \<open>core/zone_mapper.py\<close>

record ScreenPoint =
  sp_x :: int
  sp_y :: int

record ZoneConfig =
  screen_width :: int
  screen_height :: int
  sensitivity :: real
  dead_zone :: real
  invert_x :: bool
  invert_y :: bool
  margin :: int
  smoothing :: real
  zone_columns :: int
  zone_rows :: int

definition ZoneConfig_default :: ZoneConfig where
  "ZoneConfig_default =
     \<lparr>screen_width = 1920, screen_height = 1080, sensitivity = 1, dead_zone = fl (2/100),
      invert_x = True, invert_y = False, margin = 10, smoothing = 0,
      zone_columns = 3, zone_rows = 3\<rparr>"

record ZoneMapper =
  zm_config :: ZoneConfig
  zm_last_position :: "ScreenPoint option"

definition ZoneMapper_init :: "ZoneConfig option \<Rightarrow> ZoneMapper" where
  "ZoneMapper_init config =
     \<lparr>zm_config = (case config of Some c \<Rightarrow> c | None \<Rightarrow> ZoneConfig_default),
      zm_last_position = None\<rparr>"

text \<open>Python's \<open>int(x)\<close> on a float truncates toward zero.\<close>

definition py_int :: "real \<Rightarrow> int" where
  "py_int r = (if 0 \<le> r then \<lfloor>r\<rfloor> else \<lceil>r\<rceil>)"

text \<open>
  \<open>map_position\<close> up to and including the margin constraints: inversion, sensitivity,
  clamp to the unit square, scaling to pixels, clamp to the margins. Every operation on
  floats rounds.
\<close>

definition ZoneMapper_scaled :: "ZoneConfig \<Rightarrow> real \<times> real \<Rightarrow> int \<times> int" where
  "ZoneMapper_scaled c normalized_pos =
     (let (x, y) = normalized_pos;
          x = (if invert_x c then fsub 1 x else x);
          y = (if invert_y c then fsub 1 y else y);
          (x, y) = (if sensitivity c \<noteq> 1
                    then (fadd (1/2) (fmul (fsub x (1/2)) (sensitivity c)),
                          fadd (1/2) (fmul (fsub y (1/2)) (sensitivity c)))
                    else (x, y));
          x = max 0 (min 1 x);
          y = max 0 (min 1 y);
          screen_x = py_int (fmul x (float_of_int (screen_width c)));
          screen_y = py_int (fmul y (float_of_int (screen_height c)));
          screen_x = max (margin c) (min (screen_width c - margin c) screen_x);
          screen_y = max (margin c) (min (screen_height c - margin c) screen_y)
      in (screen_x, screen_y))"

text \<open>
  The blend is computed in floats, \<open>alpha * screen_x + smoothing * last.x\<close> with
  \<open>alpha = 1.0 - smoothing\<close>, and only then truncated by \<open>int\<close>.
\<close>

definition ZoneMapper_map_position ::
  "real \<times> real \<Rightarrow> ZoneMapper \<Rightarrow> ScreenPoint \<times> ZoneMapper" where
  "ZoneMapper_map_position normalized_pos m =
     (let c = zm_config m;
          (screen_x, screen_y) = ZoneMapper_scaled c normalized_pos;
          (screen_x, screen_y) =
            (case zm_last_position m of
               Some prev \<Rightarrow>
                 if smoothing c > 0
                 then (let alpha = fsub 1 (smoothing c)
                       in (py_int (fadd (fmul alpha (float_of_int screen_x))
                                        (fmul (smoothing c) (float_of_int (sp_x prev)))),
                           py_int (fadd (fmul alpha (float_of_int screen_y))
                                        (fmul (smoothing c) (float_of_int (sp_y prev))))))
                 else (screen_x, screen_y)
             | None \<Rightarrow> (screen_x, screen_y));
          position = \<lparr>sp_x = screen_x, sp_y = screen_y\<rparr>
      in (position, m\<lparr>zm_last_position := Some position\<rparr>))"

definition ZoneMapper_reset :: "ZoneMapper \<Rightarrow> ZoneMapper" where
  "ZoneMapper_reset m = m\<lparr>zm_last_position := None\<rparr>"

text \<open>A run of \<open>map_position\<close> calls on one mapper: the returned points, in order.\<close>

fun ZoneMapper_map_positions ::
  "ZoneMapper \<Rightarrow> (real \<times> real) list \<Rightarrow> ScreenPoint list \<times> ZoneMapper" where
  "ZoneMapper_map_positions m [] = ([], m)"
| "ZoneMapper_map_positions m (p # ps) =
     (let (r, m1) = ZoneMapper_map_position p m;
          (rs, m2) = ZoneMapper_map_positions m1 ps
      in (r # rs, m2))"

text \<open>A screen point inside the margins of a configuration.\<close>

definition within_margins :: "ZoneConfig \<Rightarrow> ScreenPoint \<Rightarrow> bool" where
  "within_margins c p \<longleftrightarrow>
     margin c \<le> sp_x p \<and> sp_x p \<le> screen_width c - margin c \<and>
     margin c \<le> sp_y p \<and> sp_y p \<le> screen_height c - margin c"

text \<open>
  Example configurations: the defaults with \<open>smoothing=0.06\<close> (the double nearest to
  0.06) and with \<open>smoothing=0.5\<close>.
\<close>

definition drifting_config :: ZoneConfig where
  "drifting_config = ZoneConfig_default\<lparr>smoothing := fl (6/100)\<rparr>"

definition smoothed_config :: ZoneConfig where
  "smoothed_config = ZoneConfig_default\<lparr>smoothing := 1/2\<rparr>"

section \<open>core/hand_tracker.py: the data the engine reads\<close>

record Point3D =
  p_x :: real
  p_y :: real
  p_z :: real

definition Point3D_distance_to :: "Point3D \<Rightarrow> Point3D \<Rightarrow> real" where
  "Point3D_distance_to self other =
     sqrt ((p_x self - p_x other)\<^sup>2 + (p_y self - p_y other)\<^sup>2 + (p_z self - p_z other)\<^sup>2)"

record HandData =
  landmarks :: "Point3D list"
  handedness :: string
  confidence :: real
  is_valid :: bool

text \<open>\<open>_get_landmark\<close>; a \<open>HandLandmark\<close> index is never negative.\<close>

definition HandData_get_landmark :: "nat \<Rightarrow> HandData \<Rightarrow> Point3D option" where
  "HandData_get_landmark index h =
     (if is_valid h \<and> index < length (landmarks h) then Some (landmarks h ! index) else None)"

definition thumb_tip :: "HandData \<Rightarrow> Point3D option" where
  "thumb_tip h = HandData_get_landmark 4 h"

definition index_tip :: "HandData \<Rightarrow> Point3D option" where
  "index_tip h = HandData_get_landmark 8 h"

definition middle_tip :: "HandData \<Rightarrow> Point3D option" where
  "middle_tip h = HandData_get_landmark 12 h"

section \<open>core/gesture_engine.py\<close>

datatype GestureType =
  NONE | CURSOR_MOVE | LEFT_CLICK | RIGHT_CLICK | DRAG_START | DRAG_MOVE | DRAG_END
  | SCROLL_UP | SCROLL_DOWN

datatype GestureState = IDLE | TRIGGERED | HOLDING | RELEASED

text \<open>
  The metadata dictionary holds, in this module, at most the entry \<open>delta\<close> with a pair of
  floats; it is an association list from keys to such pairs.
\<close>

record Gesture =
  g_type :: GestureType
  g_position :: "real \<times> real"
  g_confidence :: real
  g_timestamp :: real
  g_metadata :: "(string \<times> (real \<times> real)) list"

text \<open>
  The constructor with its defaults. The timestamp defaults to \<open>time.time()\<close>: the reading
  of the clock is an argument.
\<close>

definition Gesture_init ::
  "real \<Rightarrow> GestureType \<Rightarrow> real \<times> real \<Rightarrow> (string \<times> (real \<times> real)) list \<Rightarrow> Gesture" where
  "Gesture_init now ty pos meta =
     \<lparr>g_type = ty, g_position = pos, g_confidence = 1, g_timestamp = now, g_metadata = meta\<rparr>"

record GestureConfig =
  pinch_threshold :: real
  debounce_ms :: int
  hold_time_ms :: int
  click_release_ms :: int
  velocity_threshold :: real

definition GestureConfig_default :: GestureConfig where
  "GestureConfig_default =
     \<lparr>pinch_threshold = 5/100, debounce_ms = 200, hold_time_ms = 300, click_release_ms = 200,
      velocity_threshold = 1/100\<rparr>"

subsection \<open>PinchDetector\<close>

record PinchDetector =
  pd_threshold :: real
  pd_debounce_ms :: int
  pd_hold_ms :: int
  pd_state :: GestureState
  pd_pinch_start_time :: "real option"
  pd_last_trigger_time :: real
  pd_is_pinched :: bool
  pd_was_pinched :: bool

definition PinchDetector_init :: "real \<Rightarrow> int \<Rightarrow> int \<Rightarrow> PinchDetector" where
  "PinchDetector_init threshold debounce hold =
     \<lparr>pd_threshold = threshold, pd_debounce_ms = debounce, pd_hold_ms = hold,
      pd_state = IDLE, pd_pinch_start_time = None, pd_last_trigger_time = 0,
      pd_is_pinched = False, pd_was_pinched = False\<rparr>"

text \<open>
  \<open>update\<close> reads the wall clock once; \<open>now\<close> is that reading of \<open>time.time()\<close>, in
  seconds. The test \<open>elif self._pinch_start_time\<close> is false for \<open>None\<close> and for \<open>0.0\<close>.
\<close>

definition PinchDetector_update ::
  "real \<Rightarrow> real \<Rightarrow> PinchDetector \<Rightarrow> GestureState \<times> PinchDetector" where
  "PinchDetector_update now distance d =
     (let current_time = now * 1000;
          d1 = d\<lparr>pd_was_pinched := pd_is_pinched d, pd_is_pinched := distance < pd_threshold d\<rparr>;
          d2 = (case pd_state d1 of
                  IDLE \<Rightarrow>
                    if pd_is_pinched d1
                       \<and> current_time - pd_last_trigger_time d1 > real_of_int (pd_debounce_ms d1)
                    then d1\<lparr>pd_state := TRIGGERED, pd_pinch_start_time := Some current_time\<rparr>
                    else d1
                | TRIGGERED \<Rightarrow>
                    if \<not> pd_is_pinched d1
                    then d1\<lparr>pd_state := RELEASED, pd_last_trigger_time := current_time\<rparr>
                    else (case pd_pinch_start_time d1 of
                            Some start \<Rightarrow>
                              if start \<noteq> 0 \<and> current_time - start > real_of_int (pd_hold_ms d1)
                              then d1\<lparr>pd_state := HOLDING\<rparr> else d1
                          | None \<Rightarrow> d1)
                | HOLDING \<Rightarrow>
                    if \<not> pd_is_pinched d1
                    then d1\<lparr>pd_state := RELEASED, pd_last_trigger_time := current_time\<rparr>
                    else d1
                | RELEASED \<Rightarrow> d1\<lparr>pd_state := IDLE, pd_pinch_start_time := None\<rparr>)
      in (pd_state d2, d2))"

definition PinchDetector_reset :: "PinchDetector \<Rightarrow> PinchDetector" where
  "PinchDetector_reset d =
     d\<lparr>pd_state := IDLE, pd_pinch_start_time := None, pd_is_pinched := False,
       pd_was_pinched := False\<rparr>"

text \<open>
  A history of calls on one detector: \<open>Update now distance\<close> and \<open>Reset\<close>, oldest first.
\<close>

datatype pd_call = Update real real | Reset

fun PinchDetector_call :: "pd_call \<Rightarrow> PinchDetector \<Rightarrow> PinchDetector" where
  "PinchDetector_call (Update now distance) d = snd (PinchDetector_update now distance d)"
| "PinchDetector_call Reset d = PinchDetector_reset d"

fun PinchDetector_run :: "PinchDetector \<Rightarrow> pd_call list \<Rightarrow> PinchDetector" where
  "PinchDetector_run d [] = d"
| "PinchDetector_run d (c # cs) = PinchDetector_run (PinchDetector_call c d) cs"

text \<open>
  Two clocks read off a history, both in milliseconds and both \<open>t0\<close> as long as the
  transition has not happened: the time of the most recent \<open>update\<close> that moved the
  detector into \<open>RELEASED\<close>, and the time of the most recent \<open>update\<close> that moved it from
  \<open>RELEASED\<close> to \<open>IDLE\<close>.
\<close>

fun release_clock :: "real \<Rightarrow> PinchDetector \<Rightarrow> pd_call list \<Rightarrow> real" where
  "release_clock t0 d [] = t0"
| "release_clock t0 d (Reset # cs) = release_clock t0 (PinchDetector_reset d) cs"
| "release_clock t0 d (Update now distance # cs) =
     (let d' = snd (PinchDetector_update now distance d)
      in release_clock
           (if pd_state d \<noteq> RELEASED \<and> pd_state d' = RELEASED then now * 1000 else t0) d' cs)"

fun idle_clock :: "real \<Rightarrow> PinchDetector \<Rightarrow> pd_call list \<Rightarrow> real" where
  "idle_clock t0 d [] = t0"
| "idle_clock t0 d (Reset # cs) = idle_clock t0 (PinchDetector_reset d) cs"
| "idle_clock t0 d (Update now distance # cs) =
     (let d' = snd (PinchDetector_update now distance d)
      in idle_clock
           (if pd_state d = RELEASED \<and> pd_state d' = IDLE then now * 1000 else t0) d' cs)"

subsection \<open>GestureEngine\<close>

text \<open>
  Observers are opaque to the engine: a callback is a name, \<open>_callbacks\<close> maps a gesture
  type to the names registered for it, in order, and calling them is recorded as the list
  of (name, gesture) calls made. An exception raised by a callback is caught and logged,
  so a call has no other effect on the engine.
\<close>

record GestureEngine =
  ge_config :: GestureConfig
  ge_left_pinch :: PinchDetector
  ge_right_pinch :: PinchDetector
  ge_callbacks :: "GestureType \<Rightarrow> nat list"
  ge_last_position :: "(real \<times> real) option"
  ge_is_dragging :: bool

definition GestureEngine_init :: "GestureConfig option \<Rightarrow> GestureEngine" where
  "GestureEngine_init config =
     (let c = (case config of Some c \<Rightarrow> c | None \<Rightarrow> GestureConfig_default)
      in \<lparr>ge_config = c,
          ge_left_pinch = PinchDetector_init (pinch_threshold c) (debounce_ms c) (hold_time_ms c),
          ge_right_pinch = PinchDetector_init (pinch_threshold c) (debounce_ms c) (hold_time_ms c),
          ge_callbacks = (\<lambda>_. []),
          ge_last_position = None,
          ge_is_dragging = False\<rparr>)"

definition on_gesture :: "GestureType \<Rightarrow> nat \<Rightarrow> GestureEngine \<Rightarrow> GestureEngine" where
  "on_gesture gesture_type callback e =
     e\<lparr>ge_callbacks := (ge_callbacks e)(gesture_type := ge_callbacks e gesture_type @ [callback])\<rparr>"

definition trigger_callbacks :: "Gesture \<Rightarrow> GestureEngine \<Rightarrow> (nat \<times> Gesture) list" where
  "trigger_callbacks gesture e = map (\<lambda>callback. (callback, gesture)) (ge_callbacks e (g_type gesture))"

definition process_cursor_move ::
  "real \<Rightarrow> real \<times> real \<Rightarrow> GestureEngine \<Rightarrow> Gesture option" where
  "process_cursor_move now position e =
     (case ge_last_position e of
        None \<Rightarrow> None
      | Some lp \<Rightarrow>
          (let dx = \<bar>fst position - fst lp\<bar>;
               dy = \<bar>snd position - snd lp\<bar>
           in if dx > velocity_threshold (ge_config e) \<or> dy > velocity_threshold (ge_config e)
              then Some (Gesture_init now CURSOR_MOVE position [(''delta'', (dx, dy))])
              else None))"

definition process_left_pinch ::
  "real \<Rightarrow> GestureState \<Rightarrow> real \<times> real \<Rightarrow> GestureEngine \<Rightarrow> Gesture list \<times> GestureEngine" where
  "process_left_pinch now state position e =
     (case state of
        TRIGGERED \<Rightarrow> ([], e)
      | HOLDING \<Rightarrow>
          if \<not> ge_is_dragging e
          then ([Gesture_init now DRAG_START position []], e\<lparr>ge_is_dragging := True\<rparr>)
          else ([Gesture_init now DRAG_MOVE position []], e)
      | RELEASED \<Rightarrow>
          if ge_is_dragging e
          then ([Gesture_init now DRAG_END position []], e\<lparr>ge_is_dragging := False\<rparr>)
          else ([Gesture_init now LEFT_CLICK position []], e)
      | IDLE \<Rightarrow> ([], e))"

definition process_right_pinch ::
  "real \<Rightarrow> GestureState \<Rightarrow> real \<times> real \<Rightarrow> Gesture option" where
  "process_right_pinch now state position =
     (if state = RELEASED then Some (Gesture_init now RIGHT_CLICK position []) else None)"

text \<open>\<open>_reset_on_no_hand\<close>: the calls made to observers and the engine afterwards.\<close>

definition reset_on_no_hand ::
  "real \<Rightarrow> GestureEngine \<Rightarrow> (nat \<times> Gesture) list \<times> GestureEngine" where
  "reset_on_no_hand now e =
     (let (calls, e1) =
            (if ge_is_dragging e
             then (let e' = e\<lparr>ge_is_dragging := False\<rparr>;
                       gesture = Gesture_init now DRAG_END
                                   (case ge_last_position e' of Some p \<Rightarrow> p | None \<Rightarrow> (0, 0)) []
                   in (trigger_callbacks gesture e', e'))
             else ([], e))
      in (calls,
          e1\<lparr>ge_left_pinch := PinchDetector_reset (ge_left_pinch e1),
             ge_right_pinch := PinchDetector_reset (ge_right_pinch e1),
             ge_last_position := None\<rparr>))"

text \<open>
  \<open>process\<close>. \<open>clock k\<close> is the \<open>k\<close>-th reading of \<open>time.time()\<close> made during the call: the
  two detectors read it first, then each gesture constructed. The result is the returned
  list, the calls made to observers, and the engine afterwards.
\<close>

definition process ::
  "(nat \<Rightarrow> real) \<Rightarrow> HandData \<Rightarrow> GestureEngine
     \<Rightarrow> Gesture list \<times> (nat \<times> Gesture) list \<times> GestureEngine" where
  "process clock hand e =
     (if \<not> is_valid hand
      then (let (calls, e') = reset_on_no_hand (clock 0) e in ([], calls, e'))
      else
        (case (thumb_tip hand, index_tip hand, middle_tip hand) of
           (Some thumb, Some index, Some middle) \<Rightarrow>
             (let cursor_pos = (p_x index, p_y index);
                  left_distance = Point3D_distance_to thumb index;
                  right_distance = Point3D_distance_to thumb middle;
                  (left_state, lp) = PinchDetector_update (clock 0) left_distance (ge_left_pinch e);
                  (right_state, rp) = PinchDetector_update (clock 1) right_distance (ge_right_pinch e);
                  e1 = e\<lparr>ge_left_pinch := lp, ge_right_pinch := rp\<rparr>;
                  gestures1 = (case process_cursor_move (clock 2) cursor_pos e1 of
                                 Some g \<Rightarrow> [g] | None \<Rightarrow> []);
                  (left_gestures, e2) =
                     process_left_pinch (clock (2 + length gestures1)) left_state cursor_pos e1;
                  gestures2 = gestures1 @ left_gestures;
                  gestures3 = gestures2 @
                     (case process_right_pinch (clock (2 + length gestures2)) right_state cursor_pos of
                        Some g \<Rightarrow> [g] | None \<Rightarrow> []);
                  calls = concat (map (\<lambda>g. trigger_callbacks g e2) gestures3)
              in (gestures3, calls, e2\<lparr>ge_last_position := Some cursor_pos\<rparr>))
         | _ \<Rightarrow> ([], [], e)))"

definition GestureEngine_reset :: "GestureEngine \<Rightarrow> GestureEngine" where
  "GestureEngine_reset e =
     e\<lparr>ge_left_pinch := PinchDetector_reset (ge_left_pinch e),
       ge_right_pinch := PinchDetector_reset (ge_right_pinch e),
       ge_last_position := None, ge_is_dragging := False\<rparr>"

subsection \<open>A drag in progress\<close>

text \<open>
  Example data: a hand whose thumb and index tips touch while the middle tip is far away,
  a frame without a hand, and an engine with one observer (named 7) for \<open>DRAG_END\<close>.
  \<open>dragging_engine\<close> is that engine after two frames of the pinching hand, one second
  apart: the first arms the left detector, the second finds the pinch held and starts a
  drag.
\<close>

definition pinching_hand :: HandData where
  "pinching_hand =
     \<lparr>landmarks = (replicate 21 \<lparr>p_x = 1/2, p_y = 1/2, p_z = 0\<rparr>)
                    [12 := \<lparr>p_x = 1/2, p_y = 1/2, p_z = 1\<rparr>],
      handedness = ''Right'', confidence = 9/10, is_valid = True\<rparr>"

definition lost_hand :: HandData where
  "lost_hand = \<lparr>landmarks = [], handedness = ''Unknown'', confidence = 0, is_valid = False\<rparr>"

definition observed_engine :: GestureEngine where
  "observed_engine = on_gesture DRAG_END 7 (GestureEngine_init None)"

definition armed_engine :: GestureEngine where
  "armed_engine = snd (snd (process (\<lambda>k. 1) pinching_hand observed_engine))"

definition dragging_engine :: GestureEngine where
  "dragging_engine = snd (snd (process (\<lambda>k. 2) pinching_hand armed_engine))"

section \<open>Properties of the rounding\<close>

text \<open>
  How \<open>fl\<close> is evaluated: once the exponent \<open>e\<close> of \<open>x\<close> is known, \<open>fl x\<close> is the
  multiple of \<open>u = 2 powr (e - 52)\<close> nearest to \<open>x\<close>. Integers below \<open>2 ^ 53\<close> are
  doubles; the other values are those met in the examples below.
\<close>

lemma floor_log2_eq:
  assumes "0 < y" "2 powr real_of_int e \<le> y" "y < 2 powr (real_of_int e + 1)"
  shows "\<lfloor>log 2 y\<rfloor> = e"
proof (rule floor_unique)
  show "real_of_int e \<le> log 2 y" using assms by (simp add: le_log_iff)
  show "log 2 y < real_of_int e + 1" using assms by (simp add: log_less_iff)
qed

lemma fl_eqI:
  assumes e: "- 1022 \<le> e"
    and u: "u = 2 powr (real_of_int e - 52)"
    and lo: "2 ^ 52 * u \<le> \<bar>x\<bar>" and hi: "\<bar>x\<bar> < 2 ^ 53 * u"
    and r: "round_half_even (x / u) = n"
    and y: "y = real_of_int n * u"
  shows "fl x = y"
proof -
  have up: "0 < u" unfolding u by simp
  have x0: "x \<noteq> 0" using lo up by (auto simp: mult_pos_pos dest: order_less_le_trans [of 0 "2 ^ 52 * u"])
  have p52: "2 ^ 52 * u = 2 powr real_of_int e"
  proof -
    have "(2::real) ^ 52 = 2 powr 52" by simp
    then have "2 ^ 52 * u = 2 powr 52 * 2 powr (real_of_int e - 52)" unfolding u by simp
    also have "\<dots> = 2 powr (52 + (real_of_int e - 52))" by (simp only: powr_add)
    finally show ?thesis by simp
  qed
  have p53: "2 ^ 53 * u = 2 powr (real_of_int e + 1)"
  proof -
    have "(2::real) ^ 53 = 2 powr 53" by simp
    then have "2 ^ 53 * u = 2 powr 53 * 2 powr (real_of_int e - 52)" unfolding u by simp
    also have "\<dots> = 2 powr (53 + (real_of_int e - 52))" by (simp only: powr_add)
    finally show ?thesis by (simp add: add.commute)
  qed
  have "\<lfloor>log 2 \<bar>x\<bar>\<rfloor> = e"
    by (rule floor_log2_eq) (use x0 lo hi p52 p53 in simp_all)
  then have "max \<lfloor>log 2 \<bar>x\<bar>\<rfloor> (- 1022) = e" using e by simp
  then show ?thesis using x0 r y u by (simp add: fl_def Let_def)
qed

lemma fl_0: "fl 0 = 0" by (simp add: fl_def)

lemma round_half_even_of_int: "round_half_even (real_of_int k) = k"
  by (simp add: round_half_even_def)

lemma fl_of_int:
  assumes "\<bar>n\<bar> < 2 ^ 53"
  shows "fl (real_of_int n) = real_of_int n"
proof (cases "n = 0")
  case True
  then show ?thesis by (simp add: fl_0)
next
  case False
  define e where "e = \<lfloor>log 2 \<bar>real_of_int n\<bar>\<rfloor>"
  have n1: "1 \<le> \<bar>real_of_int n\<bar>" using False by (simp flip: of_int_abs)
  have e0: "0 \<le> e" unfolding e_def using n1 by simp
  have "log 2 \<bar>real_of_int n\<bar> < 53"
  proof -
    have "\<bar>real_of_int n\<bar> < 2 ^ 53" using assms by (simp flip: of_int_abs)
    then have "\<bar>real_of_int n\<bar> < 2 powr 53" by simp
    then show ?thesis using n1 by (simp add: log_less_iff)
  qed
  then have e52: "e \<le> 52" unfolding e_def by (simp add: floor_le_iff)
  define k where "k = nat (52 - e)"
  have u: "2 powr (real_of_int e - 52) = 1 / 2 ^ k"
  proof -
    have "real_of_int e - 52 = - real k" unfolding k_def using e52 by simp
    then have "2 powr (real_of_int e - 52) = 2 powr (- real k)" by simp
    also have "\<dots> = 1 / 2 powr real k" by (simp add: powr_minus_divide)
    also have "\<dots> = 1 / 2 ^ k" by (simp add: powr_realpow)
    finally show ?thesis .
  qed
  have q: "real_of_int n / (1 / 2 ^ k) = real_of_int (n * 2 ^ k)" by simp
  have m: "max e (- 1022) = e" using e0 by simp
  show ?thesis
    using False
    apply (simp only: fl_def Let_def e_def [symmetric] m u q round_half_even_of_int of_int_eq_0_iff if_False)
    apply simp
    done
qed


lemma fl_numeral: "(numeral w :: int) < 2 ^ 53 \<Longrightarrow> fl (numeral w) = numeral w"
  using fl_of_int [of "numeral w"] by simp

lemma fl_1: "fl 1 = 1"
  using fl_of_int [of 1] by simp

lemma float_of_int_numeral:
  "(numeral w :: int) < 2 ^ 53 \<Longrightarrow> float_of_int (numeral w) = numeral w"
  by (simp add: float_of_int_def fl_numeral)

lemma fl_half:
  assumes "x = 1 / 2"
  shows "fl x = 1 / 2"
  unfolding assms
  by (rule fl_eqI [where e = "- 1" and n = 4503599627370496 and u = "1 / 2 ^ 53"])
     (simp_all add: round_half_even_def powr_minus_divide)

lemma fl_1e16:
  assumes "x = 10000000000000000"
  shows "fl x = 10000000000000000"
  unfolding assms
  by (rule fl_eqI [where e = 53 and n = 5000000000000000 and u = "2 ^ 1"])
     (simp_all add: round_half_even_def powr_minus_divide)

lemma fl_1e16_plus_1:
  assumes "x = 10000000000000001"
  shows "fl x = 10000000000000000"
  unfolding assms
  by (rule fl_eqI [where e = 53 and n = 5000000000000000 and u = "2 ^ 1"])
     (simp_all add: round_half_even_def powr_minus_divide)

lemma fl_smoothing:
  assumes "x = 3 / 50"
  shows "fl x = 1080863910568919 / 18014398509481984"
  unfolding assms
  by (rule fl_eqI [where e = "- 5" and n = 8646911284551352 and u = "1 / 2 ^ 57"])
     (simp_all add: round_half_even_def powr_minus_divide)

lemma fl_alpha:
  assumes "x = 16933534598913065 / 18014398509481984"
  shows "fl x = 2116691824864133 / 2251799813685248"
  unfolding assms
  by (rule fl_eqI [where e = "- 1" and n = 8466767299456532 and u = "1 / 2 ^ 53"])
     (simp_all add: round_half_even_def powr_minus_divide)

lemma fl_alpha_times_10:
  assumes "x = 10583459124320665 / 1125899906842624"
  shows "fl x = 1322932390540083 / 140737488355328"
  unfolding assms
  by (rule fl_eqI [where e = 3 and n = 5291729562160332 and u = "1 / 2 ^ 49"])
     (simp_all add: round_half_even_def powr_minus_divide)

lemma fl_smoothing_times_10:
  assumes "x = 5404319552844595 / 9007199254740992"
  shows "fl x = 5404319552844595 / 9007199254740992"
  unfolding assms
  by (rule fl_eqI [where e = "- 1" and n = 5404319552844595 and u = "1 / 2 ^ 53"])
     (simp_all add: round_half_even_def powr_minus_divide)

lemma fl_blend_10_10:
  assumes "x = 90071992547409907 / 9007199254740992"
  shows "fl x = 5629499534213119 / 562949953421312"
  unfolding assms
  by (rule fl_eqI [where e = 3 and n = 5629499534213119 and u = "1 / 2 ^ 49"])
     (simp_all add: round_half_even_def powr_minus_divide)

lemma fl_smoothing_times_9:
  assumes "x = 9727775195120271 / 18014398509481984"
  shows "fl x = 607985949695017 / 1125899906842624"
  unfolding assms
  by (rule fl_eqI [where e = "- 1" and n = 4863887597560136 and u = "1 / 2 ^ 53"])
     (simp_all add: round_half_even_def powr_minus_divide)

lemma fl_blend_10_9:
  assumes "x = 11191445074015681 / 1125899906842624"
  shows "fl x = 174866329281495 / 17592186044416"
  unfolding assms
  by (rule fl_eqI [where e = 3 and n = 5595722537007840 and u = "1 / 2 ^ 49"])
     (simp_all add: round_half_even_def powr_minus_divide)

lemmas fl_values = fl_0 fl_1 fl_numeral fl_half fl_1e16 fl_1e16_plus_1 fl_smoothing fl_alpha
  fl_alpha_times_10 fl_smoothing_times_10 fl_blend_10_10 fl_smoothing_times_9 fl_blend_10_9

lemmas f_ops = fadd_def fsub_def fmul_def fdiv_def float_of_int_def

section \<open>Properties of the smoothers\<close>




subsection \<open>MovingAverage: the running sum\<close>

text \<open>
  C7. The \<open>k\<close>-th update of a moving average with window \<open>N\<close> is to return the
  arithmetic mean of the last \<open>min k N\<close> inputs, and after \<open>N + 1\<close> updates the first
  input is to count no longer. The running sum is a float. With window 2 and the inputs
  \<open>1e16, 1.0, 1.0\<close>: \<open>1e16 + 1.0\<close> rounds to \<open>1e16\<close>, the subtraction of the evicted
  \<open>1e16\<close> leaves \<open>0.0\<close>, and the third update returns \<open>0.5\<close>, where the mean of the
  last two inputs is 1. With \<open>0.0\<close> as the first input the third update returns \<open>1.0\<close>:
  the evicted input decides the output.
\<close>

theorem moving_average_running_sum_drift:
  "MovingAverage_init 2 = Inr \<lparr>ma_window_size = 2, ma_values = [], ma_sum = 0\<rparr> \<and>
   fst (MovingAverage_updates \<lparr>ma_window_size = 2, ma_values = [], ma_sum = 0\<rparr>
          [10000000000000000, 1, 1])
     = [Inr 10000000000000000, Inr 5000000000000000, Inr (1/2)] \<and>
   window_mean 2 [10000000000000000, 1, 1] = 1 \<and>
   fst (MovingAverage_updates \<lparr>ma_window_size = 2, ma_values = [], ma_sum = 0\<rparr> [0, 1, 1])
     = [Inr 0, Inr (1/2), Inr 1]"
  by (simp add: MovingAverage_init_def MovingAverage_update_def deque_append_def Let_def
      window_mean_def f_ops fl_values)

subsection \<open>Construction\<close>

lemma smoother_constructor_validation:
  "(ExponentialMovingAverage_init alpha = Inl ValueError \<longleftrightarrow> alpha < 0 \<or> 1 < alpha) \<and>
   (0 \<le> alpha \<and> alpha \<le> 1 \<longrightarrow> (\<exists>s. ExponentialMovingAverage_init alpha = Inr s)) \<and>
   (MovingAverage_init window_size = Inl ValueError \<longleftrightarrow> window_size < 1) \<and>
   (1 \<le> window_size \<longrightarrow> (\<exists>s. MovingAverage_init window_size = Inr s)) \<and>
   (\<exists>s. DoubleExponentialSmoothing_init alpha' beta' = Inr s)"
  by (auto simp: ExponentialMovingAverage_init_def MovingAverage_init_def
      DoubleExponentialSmoothing_init_def)

text \<open>
  C5. Every smoother is to fail construction on a parameter out of range. The exponential
  and the windowed moving average do (\<open>smoother_constructor_validation\<close>); the
  double-exponential constructor does not: with \<open>alpha = 1.5\<close>, outside \<open>[0,1]\<close>,
  construction succeeds and stores the value.
\<close>

theorem des_init_out_of_range_succeeds:
  "DoubleExponentialSmoothing_init (3/2) (1/10) =
     Inr \<lparr>des_alpha = 3/2, des_beta = 1/10, des_level = None, des_trend = None,
          des_initialized = False\<rparr> \<and>
   \<not> ((3/2 :: real) \<le> 1) \<and>
   ExponentialMovingAverage_init (3/2) = Inl ValueError"
  by (simp add: DoubleExponentialSmoothing_init_def ExponentialMovingAverage_init_def)

subsection \<open>Reset\<close>

text \<open>
  C9. For each of the four smoothers and any state of it, \<open>reset\<close> followed by
  \<open>update v\<close> (at any timestamp \<open>t\<close>, for the one-euro filter) returns exactly \<open>v\<close>. A
  moving average has a window of at least 1, as every constructed one has, and its input
  \<open>v\<close> is a float (\<open>fl v = v\<close>): its sum \<open>0.0 + v\<close> and its quotient \<open>v / 1\<close> round
  to \<open>v\<close> itself.
\<close>

theorem reset_then_update_returns_input:
  "fst (ExponentialMovingAverage_update v (ExponentialMovingAverage_reset e)) = Inr v \<and>
   (1 \<le> ma_window_size m \<and> fl v = v \<longrightarrow>
      fst (MovingAverage_update v (MovingAverage_reset m)) = Inr v) \<and>
   fst (DoubleExponentialSmoothing_update v (DoubleExponentialSmoothing_reset d)) = Inr v \<and>
   fst (OneEuroFilter_update v t (OneEuroFilter_reset f)) = Inr (Some v)"
  by (simp add: ExponentialMovingAverage_update_def ExponentialMovingAverage_reset_def
      MovingAverage_update_def MovingAverage_reset_def deque_append_def Let_def
      DoubleExponentialSmoothing_update_def DoubleExponentialSmoothing_reset_def
      OneEuroFilter_update_def OneEuroFilter_reset_def ExponentialMovingAverage_init_def
      f_ops fl_1)

theorem reset_then_update_returns_input_witness:
  "(1::int) \<le> ma_window_size \<lparr>ma_window_size = 3, ma_values = [10, 20], ma_sum = 30\<rparr> \<and>
   fl 7 = 7 \<and>
   fst (MovingAverage_update 7
     (MovingAverage_reset \<lparr>ma_window_size = 3, ma_values = [10, 20], ma_sum = 30\<rparr>)) = Inr 7 \<and>
   fst (ExponentialMovingAverage_update 7 (ExponentialMovingAverage_reset
     \<lparr>ema_alpha = 1/2, ema_value = Some 10, ema_initialized = True\<rparr>)) = Inr 7"
proof -
  have f: "fl 7 = 7" by (simp add: fl_numeral)
  from reset_then_update_returns_input
    [of 7 "\<lparr>ema_alpha = 1/2, ema_value = Some 10, ema_initialized = True\<rparr>"
        "\<lparr>ma_window_size = 3, ma_values = [10, 20], ma_sum = 30\<rparr>"
        "\<lparr>des_alpha = 1/2, des_beta = 1/2, des_level = Some 1, des_trend = Some 0,
          des_initialized = True\<rparr>"
        0 "OneEuroFilter_init 1 (7/1000) 1"] f
  show ?thesis by simp
qed

subsection \<open>OneEuroFilter: samples that do not advance the time\<close>

lemma oef_reachable_last_value:
  "OneEuroFilter_reachable s \<Longrightarrow> oef_last_time s \<noteq> None \<Longrightarrow> oef_last_value s \<noteq> None"
proof (induction rule: OneEuroFilter_reachable.induct)
  case (reach_init min_cutoff beta d_cutoff)
  then show ?case by (simp add: OneEuroFilter_init_def)
next
  case (reach_update s val timestamp)
  then show ?case
    by (auto simp: OneEuroFilter_update_def OneEuroFilter_filter_def Let_def
        ExponentialMovingAverage_init_def
        split: option.splits sum.splits if_splits prod.splits)
next
  case (reach_reset s)
  then show ?case by (simp add: OneEuroFilter_reset_def)
qed

text \<open>
  Whatever an \<open>update\<close> returns without raising is what it leaves in \<open>_last_value\<close>: that
  attribute is the last output of the filter.
\<close>

lemma oef_update_returns_last_value:
  "OneEuroFilter_update v0 t0 s0 = (Inr r, s) \<Longrightarrow> oef_last_value s = r"
  by (auto simp: OneEuroFilter_update_def OneEuroFilter_filter_def Let_def
        ExponentialMovingAverage_init_def
        split: option.splits sum.splits if_splits prod.splits)

text \<open>
  C8. A one-euro filter that has processed a sample (it is reachable and its last time is
  set) and is given a timestamp with \<open>timestamp - last_time \<le> 0\<close>: \<open>update\<close> does not
  raise, returns the last output, and leaves the whole object as it was (last value, last
  time and both inner filters).
\<close>

theorem one_euro_nonpositive_dt:
  "OneEuroFilter_reachable s \<Longrightarrow> oef_last_time s = Some last_time \<Longrightarrow>
   timestamp - last_time \<le> 0 \<Longrightarrow>
   (\<exists>out. oef_last_value s = Some out \<and>
      OneEuroFilter_update val timestamp s = (Inr (Some out), s))"
proof -
  assume r: "OneEuroFilter_reachable s" and t: "oef_last_time s = Some last_time"
    and d: "timestamp - last_time \<le> 0"
  from oef_reachable_last_value [OF r] t obtain out where o: "oef_last_value s = Some out"
    by auto
  show ?thesis using t d o by (simp add: OneEuroFilter_update_def)
qed

theorem one_euro_nonpositive_dt_witness:
  "OneEuroFilter_reachable (snd (OneEuroFilter_update 10 5 (OneEuroFilter_init 1 (7/1000) 1))) \<and>
   oef_last_time (snd (OneEuroFilter_update 10 5 (OneEuroFilter_init 1 (7/1000) 1))) = Some 5 \<and>
   (3::real) - 5 \<le> 0 \<and>
   OneEuroFilter_update 20 3 (snd (OneEuroFilter_update 10 5 (OneEuroFilter_init 1 (7/1000) 1)))
     = (Inr (Some 10), snd (OneEuroFilter_update 10 5 (OneEuroFilter_init 1 (7/1000) 1)))"
proof -
  let ?s = "snd (OneEuroFilter_update 10 5 (OneEuroFilter_init 1 (7/1000) 1))"
  have r: "OneEuroFilter_reachable ?s" by (rule reach_update [OF reach_init])
  have t: "oef_last_time ?s = Some 5"
    by (simp add: OneEuroFilter_update_def OneEuroFilter_init_def ExponentialMovingAverage_init_def)
  have v: "oef_last_value ?s = Some 10"
    by (simp add: OneEuroFilter_update_def OneEuroFilter_init_def ExponentialMovingAverage_init_def)
  have d: "(3::real) - 5 \<le> 0" by simp
  from one_euro_nonpositive_dt [OF r t d, of 20] v r t d show ?thesis by auto
qed

section \<open>Properties of the zone mapper\<close>

lemma clamp_bounds:
  fixes lo hi v :: int
  shows "lo \<le> hi \<Longrightarrow> lo \<le> max lo (min hi v) \<and> max lo (min hi v) \<le> hi"
  by (simp add: max_def min_def)

lemma scaled_clamped:
  "\<exists>u v. ZoneMapper_scaled c p =
     (max (margin c) (min (screen_width c - margin c) u),
      max (margin c) (min (screen_height c - margin c) v))"
  unfolding ZoneMapper_scaled_def Let_def split_beta by (intro exI) (rule refl)

lemma scaled_within:
  assumes "2 * margin c \<le> screen_width c" "2 * margin c \<le> screen_height c"
  shows "within_margins c \<lparr>sp_x = fst (ZoneMapper_scaled c p), sp_y = snd (ZoneMapper_scaled c p)\<rparr>"
proof -
  from scaled_clamped [of c p] obtain u v where
    e: "ZoneMapper_scaled c p =
     (max (margin c) (min (screen_width c - margin c) u),
      max (margin c) (min (screen_height c - margin c) v))" by blast
  have w: "margin c \<le> screen_width c - margin c" using assms(1) by simp
  have h: "margin c \<le> screen_height c - margin c" using assms(2) by simp
  from clamp_bounds [OF w, of u] clamp_bounds [OF h, of v]
  show ?thesis unfolding e within_margins_def ScreenPoint.simps fst_conv snd_conv by blast
qed

lemma map_position_stores:
  "zm_last_position (snd (ZoneMapper_map_position p m)) = Some (fst (ZoneMapper_map_position p m)) \<and>
   zm_config (snd (ZoneMapper_map_position p m)) = zm_config m"
  by (simp add: ZoneMapper_map_position_def Let_def split_beta)

lemma map_position_first:
  "zm_last_position m = None \<Longrightarrow> ZoneMapper_scaled (zm_config m) p = (new_x, new_y) \<Longrightarrow>
   ZoneMapper_map_position p m =
     (\<lparr>sp_x = new_x, sp_y = new_y\<rparr>, m\<lparr>zm_last_position := Some \<lparr>sp_x = new_x, sp_y = new_y\<rparr>\<rparr>)"
  by (simp add: ZoneMapper_map_position_def Let_def)

lemma map_position_blend:
  "0 < smoothing (zm_config m) \<Longrightarrow> zm_last_position m = Some prev \<Longrightarrow>
   ZoneMapper_scaled (zm_config m) p = (new_x, new_y) \<Longrightarrow>
   fst (ZoneMapper_map_position p m) =
     \<lparr>sp_x = py_int (fadd (fmul (fsub 1 (smoothing (zm_config m))) (float_of_int new_x))
                          (fmul (smoothing (zm_config m)) (float_of_int (sp_x prev)))),
      sp_y = py_int (fadd (fmul (fsub 1 (smoothing (zm_config m))) (float_of_int new_y))
                          (fmul (smoothing (zm_config m)) (float_of_int (sp_y prev))))\<rparr>"
  by (simp add: ZoneMapper_map_position_def Let_def)

lemma map_positions_Cons:
  "fst (ZoneMapper_map_positions m (p # ps)) =
     fst (ZoneMapper_map_position p m) #
     fst (ZoneMapper_map_positions (snd (ZoneMapper_map_position p m)) ps)"
  by (simp add: split_beta Let_def)

lemma drifting_config_fields:
  "invert_x drifting_config" "\<not> invert_y drifting_config" "sensitivity drifting_config = 1"
  "margin drifting_config = 10" "screen_width drifting_config = 1920"
  "screen_height drifting_config = 1080"
  "smoothing drifting_config = 1080863910568919 / 18014398509481984"
  by (simp_all add: drifting_config_def ZoneConfig_default_def fl_smoothing)

lemma scaled_corner:
  assumes "invert_x c" "\<not> invert_y c" "sensitivity c = 1" "margin c = 10"
    "screen_width c = 1920" "screen_height c = 1080"
  shows "ZoneMapper_scaled c (1, 0) = (10, 10)"
proof -
  have x: "fsub 1 1 = 0" by (simp add: fsub_def fl_0)
  have p: "fmul 0 (float_of_int 1920) = 0" "fmul 0 (float_of_int 1080) = 0"
    by (simp_all add: fmul_def fl_0)
  have i: "py_int 0 = 0" by (simp add: py_int_def)
  show ?thesis
    unfolding ZoneMapper_scaled_def Let_def split_beta
    by (simp add: assms x p i)
qed

lemma blend_10_10:
  "py_int (fadd (fmul (fsub 1 (1080863910568919 / 18014398509481984)) (float_of_int 10))
                (fmul (1080863910568919 / 18014398509481984) (float_of_int 10))) = 9"
  by (simp add: f_ops fl_values py_int_def)

lemma blend_10_9:
  "py_int (fadd (fmul (fsub 1 (1080863910568919 / 18014398509481984)) (float_of_int 10))
                (fmul (1080863910568919 / 18014398509481984) (float_of_int 9))) = 9"
  by (simp add: f_ops fl_values py_int_def)

lemma smoothed_config_fields:
  "invert_x smoothed_config" "\<not> invert_y smoothed_config" "sensitivity smoothed_config = 1"
  "margin smoothed_config = 10" "screen_width smoothed_config = 1920"
  "screen_height smoothed_config = 1080" "smoothing smoothed_config = 1/2"
  by (simp_all add: smoothed_config_def ZoneConfig_default_def)

text \<open>
  C3. Every point \<open>map_position\<close> returns is to lie within the margins, for a
  configuration with \<open>smoothing\<close> in \<open>[0,1]\<close> and room for the margins, and inputs in the
  unit square. With \<open>smoothing=0.06\<close> (and the defaults otherwise: a margin of 10 on a
  screen of 1920 by 1080) and the corner \<open>(1.0, 0.0)\<close> mapped three times from
  construction: the first call returns \<open>(10, 10)\<close>, on the margin; the second blends 10
  with 10 as \<open>0.94 * 10 + 0.06 * 10\<close> in floats, which is the double just below 10, and
  \<open>int\<close> truncates it to 9, below the margin; the third call returns \<open>(9, 9)\<close> again.
  Before the blend the point is within the margins (\<open>scaled_within\<close>).
\<close>

theorem zone_mapper_blend_below_margin:
  "fst (ZoneMapper_map_positions (ZoneMapper_init (Some drifting_config)) [(1, 0), (1, 0), (1, 0)])
     = [\<lparr>sp_x = 10, sp_y = 10\<rparr>, \<lparr>sp_x = 9, sp_y = 9\<rparr>, \<lparr>sp_x = 9, sp_y = 9\<rparr>] \<and>
   0 \<le> smoothing drifting_config \<and> smoothing drifting_config \<le> 1 \<and>
   2 * margin drifting_config \<le> screen_width drifting_config \<and>
   2 * margin drifting_config \<le> screen_height drifting_config \<and>
   margin drifting_config = 10 \<and>
   \<not> within_margins drifting_config \<lparr>sp_x = 9, sp_y = 9\<rparr>"
proof -
  let ?c = drifting_config
  let ?m0 = "ZoneMapper_init (Some ?c)"
  let ?m1 = "\<lparr>zm_config = ?c, zm_last_position = Some \<lparr>sp_x = 10, sp_y = 10\<rparr>\<rparr>"
  let ?m2 = "\<lparr>zm_config = ?c, zm_last_position = Some \<lparr>sp_x = 9, sp_y = 9\<rparr>\<rparr>"
  note f = drifting_config_fields
  have sc: "ZoneMapper_scaled ?c (1, 0) = (10, 10)"
    by (rule scaled_corner) (rule f)+
  have s0: "0 < smoothing ?c" by (simp add: f)
  have c1: "ZoneMapper_map_position (1, 0) ?m0 = (\<lparr>sp_x = 10, sp_y = 10\<rparr>, ?m1)"
    using map_position_first [of ?m0 "(1, 0)" 10 10] sc by (simp add: ZoneMapper_init_def)
  have r2: "fst (ZoneMapper_map_position (1, 0) ?m1) = \<lparr>sp_x = 9, sp_y = 9\<rparr>"
    using map_position_blend [of ?m1 "\<lparr>sp_x = 10, sp_y = 10\<rparr>" "(1, 0)" 10 10] s0 sc
    by (simp add: f blend_10_10)
  have c2: "ZoneMapper_map_position (1, 0) ?m1 = (\<lparr>sp_x = 9, sp_y = 9\<rparr>, ?m2)"
    using r2 map_position_stores [of "(1, 0)" ?m1]
    by (cases "ZoneMapper_map_position (1, 0) ?m1") (simp add: ZoneMapper.equality)
  have r3: "fst (ZoneMapper_map_position (1, 0) ?m2) = \<lparr>sp_x = 9, sp_y = 9\<rparr>"
    using map_position_blend [of ?m2 "\<lparr>sp_x = 9, sp_y = 9\<rparr>" "(1, 0)" 10 10] s0 sc
    by (simp add: f blend_10_9)
  have run: "fst (ZoneMapper_map_positions ?m0 [(1, 0), (1, 0), (1, 0)])
     = [\<lparr>sp_x = 10, sp_y = 10\<rparr>, \<lparr>sp_x = 9, sp_y = 9\<rparr>, \<lparr>sp_x = 9, sp_y = 9\<rparr>]"
    unfolding map_positions_Cons c1 fst_conv snd_conv c2 r3 by simp
  show ?thesis using run by (simp add: f within_margins_def)
qed

text \<open>
  C4. With \<open>smoothing = s > 0\<close> and whatever the state of the mapper: a call of
  \<open>map_position\<close> stores the point it returns, and the next call returns on each axis
  \<open>int(alpha * new + s * previous)\<close> with \<open>alpha = 1.0 - s\<close>, where \<open>previous\<close> is the
  point the call before returned, \<open>new\<close> the pixel coordinate after the margin
  constraints, and the operations are those of floats. The weight \<open>s\<close> multiplies the
  previous point and \<open>1 - s\<close> the new sample: the other way round from the exponential
  moving average, whose \<open>alpha\<close> multiplies the new sample.
\<close>

theorem zone_mapper_blend:
  "0 < smoothing (zm_config m) \<Longrightarrow>
   ZoneMapper_map_position p1 m = (prev, m1) \<Longrightarrow>
   ZoneMapper_scaled (zm_config m) p2 = (new_x, new_y) \<Longrightarrow>
   zm_last_position m1 = Some prev \<and>
   fst (ZoneMapper_map_position p2 m1) =
     \<lparr>sp_x = py_int (fadd (fmul (fsub 1 (smoothing (zm_config m))) (float_of_int new_x))
                          (fmul (smoothing (zm_config m)) (float_of_int (sp_x prev)))),
      sp_y = py_int (fadd (fmul (fsub 1 (smoothing (zm_config m))) (float_of_int new_y))
                          (fmul (smoothing (zm_config m)) (float_of_int (sp_y prev))))\<rparr>"
proof -
  assume s: "0 < smoothing (zm_config m)"
    and p: "ZoneMapper_map_position p1 m = (prev, m1)"
    and n: "ZoneMapper_scaled (zm_config m) p2 = (new_x, new_y)"
  from map_position_stores [of p1 m] p
  have l: "zm_last_position m1 = Some prev" and c: "zm_config m1 = zm_config m" by simp_all
  from map_position_blend [of m1 prev p2 new_x new_y] s n l c
  show ?thesis by simp
qed

theorem zone_mapper_blend_witness:
  "0 < smoothing (zm_config (ZoneMapper_init (Some smoothed_config))) \<and>
   ZoneMapper_map_position (0, 0) (ZoneMapper_init (Some smoothed_config))
     = (\<lparr>sp_x = 1910, sp_y = 10\<rparr>,
        \<lparr>zm_config = smoothed_config, zm_last_position = Some \<lparr>sp_x = 1910, sp_y = 10\<rparr>\<rparr>) \<and>
   ZoneMapper_scaled (zm_config (ZoneMapper_init (Some smoothed_config))) (1, 1/4) = (10, 270) \<and>
   fst (ZoneMapper_map_position (1, 1/4)
          \<lparr>zm_config = smoothed_config, zm_last_position = Some \<lparr>sp_x = 1910, sp_y = 10\<rparr>\<rparr>)
     = \<lparr>sp_x = 960, sp_y = 140\<rparr>"
proof -
  let ?c = smoothed_config
  let ?m = "ZoneMapper_init (Some ?c)"
  let ?m1 = "\<lparr>zm_config = ?c, zm_last_position = Some \<lparr>sp_x = 1910, sp_y = 10\<rparr>\<rparr>"
  note f = smoothed_config_fields
  have c: "zm_config ?m = ?c" and n0: "zm_last_position ?m = None"
    by (simp_all add: ZoneMapper_init_def)
  have h1: "0 < smoothing (zm_config ?m)" by (simp add: c f)
  have s1: "ZoneMapper_scaled ?c (0, 0) = (1910, 10)"
    unfolding ZoneMapper_scaled_def Let_def split_beta
    by (simp add: f py_int_def f_ops fl_values)
  have s2: "ZoneMapper_scaled ?c (1, 1/4) = (10, 270)"
    unfolding ZoneMapper_scaled_def Let_def split_beta
    by (simp add: f py_int_def f_ops fl_values)
  have h2: "ZoneMapper_map_position (0, 0) ?m = (\<lparr>sp_x = 1910, sp_y = 10\<rparr>, ?m1)"
    using map_position_first [of ?m "(0, 0)" 1910 10] s1 by (simp add: ZoneMapper_init_def)
  have h3: "ZoneMapper_scaled (zm_config ?m) (1, 1/4) = (10, 270)" using s2 by (simp add: c)
  have b: "py_int (fadd (fmul (fsub 1 (1/2)) (float_of_int 10)) (fmul (1/2) (float_of_int 1910))) = 960"
    "py_int (fadd (fmul (fsub 1 (1/2)) (float_of_int 270)) (fmul (1/2) (float_of_int 10))) = 140"
    by (simp_all add: f_ops fl_values py_int_def)
  from zone_mapper_blend [OF h1 h2 h3]
  have "fst (ZoneMapper_map_position (1, 1/4) ?m1) = \<lparr>sp_x = 960, sp_y = 140\<rparr>"
    by (simp add: c f b)
  with h1 h2 h3 show ?thesis by blast
qed

section \<open>Properties of the pinch detector\<close>

lemma update_state_cases:
  "pd_state (snd (PinchDetector_update now distance d)) = fst (PinchDetector_update now distance d)"
  by (simp add: PinchDetector_update_def Let_def)

lemma update_last_trigger:
  "pd_last_trigger_time (snd (PinchDetector_update now distance d)) =
     (if pd_state d \<noteq> RELEASED \<and> pd_state (snd (PinchDetector_update now distance d)) = RELEASED
      then now * 1000 else pd_last_trigger_time d)"
  by (cases "pd_state d")
     (auto simp: PinchDetector_update_def Let_def split: option.splits)

lemma call_params:
  "pd_threshold (PinchDetector_call c d) = pd_threshold d \<and>
   pd_debounce_ms (PinchDetector_call c d) = pd_debounce_ms d"
  by (cases c; cases "pd_state d")
     (auto simp: PinchDetector_update_def PinchDetector_reset_def Let_def split: option.splits)

lemma run_params:
  "pd_threshold (PinchDetector_run d cs) = pd_threshold d \<and>
   pd_debounce_ms (PinchDetector_run d cs) = pd_debounce_ms d"
  by (induction cs arbitrary: d) (simp_all add: call_params)

lemma run_last_trigger:
  "pd_last_trigger_time (PinchDetector_run d cs) = release_clock (pd_last_trigger_time d) d cs"
proof (induction cs arbitrary: d)
  case Nil
  then show ?case by simp
next
  case (Cons c cs)
  show ?case
  proof (cases c)
    case (Update now distance)
    then show ?thesis
      using Cons.IH [of "snd (PinchDetector_update now distance d)"]
      by (simp add: update_last_trigger Let_def)
  next
    case Reset
    then show ?thesis
      using Cons.IH [of "PinchDetector_reset d"]
      by (simp add: PinchDetector_reset_def)
  qed
qed

lemma update_from_released:
  "pd_state d = RELEASED \<Longrightarrow> fst (PinchDetector_update now distance d) = IDLE"
  by (simp add: PinchDetector_update_def Let_def)

lemma update_from_idle:
  "pd_state d = IDLE \<Longrightarrow>
   fst (PinchDetector_update now distance d) = TRIGGERED \<longleftrightarrow>
     distance < pd_threshold d \<and> now * 1000 - pd_last_trigger_time d > real_of_int (pd_debounce_ms d)"
  by (simp add: PinchDetector_update_def Let_def)

text \<open>
  C2, as the code has it. For a detector constructed and then put through any calls of
  \<open>update\<close> and \<open>reset\<close>: from \<open>RELEASED\<close> the next \<open>update\<close> moves to \<open>IDLE\<close>
  whatever the distance; from \<open>IDLE\<close> an \<open>update\<close> at clock reading \<open>now\<close> moves to
  \<open>TRIGGERED\<close> if and only if the distance is below the threshold and the time since the
  most recent transition into \<open>RELEASED\<close> (since 0, for a detector that never released)
  exceeds \<open>debounce_ms\<close>. The debounce clock is set on the way into \<open>RELEASED\<close>, not on
  the way out of it.
\<close>

theorem pinch_debounce_from_release:
  "d = PinchDetector_run (PinchDetector_init threshold debounce hold) cs \<Longrightarrow>
   (pd_state d = RELEASED \<longrightarrow> fst (PinchDetector_update now distance d) = IDLE) \<and>
   (pd_state d = IDLE \<longrightarrow>
      (fst (PinchDetector_update now distance d) = TRIGGERED \<longleftrightarrow>
         distance < threshold \<and>
         now * 1000 - release_clock 0 (PinchDetector_init threshold debounce hold) cs
           > real_of_int debounce))"
proof -
  let ?i = "PinchDetector_init threshold debounce hold"
  assume d: "d = PinchDetector_run ?i cs"
  have p: "pd_threshold d = threshold" "pd_debounce_ms d = debounce"
    unfolding d using run_params [of ?i cs] by (simp_all add: PinchDetector_init_def)
  have l: "pd_last_trigger_time d = release_clock 0 ?i cs"
    unfolding d using run_last_trigger [of ?i cs] by (simp add: PinchDetector_init_def)
  show ?thesis
    using update_from_released [of d now distance] update_from_idle [of d now distance]
    by (simp add: p l)
qed

text \<open>
  A history that tells the two clocks apart (threshold 0.05, debounce 200 ms): a pinch at
  1000 ms, its release at 1100 ms, the step back to \<open>IDLE\<close> at 1250 ms, a new pinch at
  1400 ms.
\<close>

lemma pinch_history_run:
  "PinchDetector_run (PinchDetector_init (1/20) 200 300)
     [Update 1 (3/100), Update (11/10) (1/10), Update (5/4) (1/10)] =
   \<lparr>pd_threshold = 1/20, pd_debounce_ms = 200, pd_hold_ms = 300, pd_state = IDLE,
    pd_pinch_start_time = None, pd_last_trigger_time = 1100, pd_is_pinched = False,
    pd_was_pinched = False\<rparr>"
  by (simp add: PinchDetector_init_def PinchDetector_update_def Let_def)

lemma pinch_history_idle_clock:
  "idle_clock 0 (PinchDetector_init (1/20) 200 300)
     [Update 1 (3/100), Update (11/10) (1/10), Update (5/4) (1/10)] = 1250"
  by (simp add: PinchDetector_init_def PinchDetector_update_def Let_def)

text \<open>
  C2 as stated measures the debounce from the most recent \<open>RELEASED\<close>-to-\<open>IDLE\<close>
  transition. In the history above that is 150 ms before the new pinch, less than the
  debounce, and yet the detector triggers.
\<close>

theorem pinch_debounce_clock_counterexample:
  "pd_state (PinchDetector_run (PinchDetector_init (1/20) 200 300)
      [Update 1 (3/100), Update (11/10) (1/10), Update (5/4) (1/10)]) = IDLE \<and>
   idle_clock 0 (PinchDetector_init (1/20) 200 300)
      [Update 1 (3/100), Update (11/10) (1/10), Update (5/4) (1/10)] = 1250 \<and>
   \<not> (fst (PinchDetector_update (7/5) (3/100)
           (PinchDetector_run (PinchDetector_init (1/20) 200 300)
              [Update 1 (3/100), Update (11/10) (1/10), Update (5/4) (1/10)])) = TRIGGERED
       \<longleftrightarrow> (3/100 :: real) < 1/20 \<and>
           (7/5) * 1000 - idle_clock 0 (PinchDetector_init (1/20) 200 300)
              [Update 1 (3/100), Update (11/10) (1/10), Update (5/4) (1/10)]
             > real_of_int 200)"
  unfolding pinch_history_run pinch_history_idle_clock
  by (simp add: PinchDetector_update_def Let_def)

theorem pinch_debounce_from_release_witness:
  "pd_state (PinchDetector_run (PinchDetector_init (1/20) 200 300)
      [Update 1 (3/100), Update (11/10) (1/10), Update (5/4) (1/10)]) = IDLE \<and>
   release_clock 0 (PinchDetector_init (1/20) 200 300)
      [Update 1 (3/100), Update (11/10) (1/10), Update (5/4) (1/10)] = 1100 \<and>
   fst (PinchDetector_update (7/5) (3/100)
           (PinchDetector_run (PinchDetector_init (1/20) 200 300)
              [Update 1 (3/100), Update (11/10) (1/10), Update (5/4) (1/10)])) = TRIGGERED \<and>
   pd_state (PinchDetector_run (PinchDetector_init (1/20) 200 300)
      [Update 1 (3/100), Update (11/10) (1/10)]) = RELEASED \<and>
   fst (PinchDetector_update (5/4) (1/100)
           (PinchDetector_run (PinchDetector_init (1/20) 200 300)
              [Update 1 (3/100), Update (11/10) (1/10)])) = IDLE"
proof -
  let ?i = "PinchDetector_init (1/20) 200 300"
  let ?cs = "[Update 1 (3/100), Update (11/10) (1/10), Update (5/4) (1/10)]"
  let ?cs2 = "[Update 1 (3/100), Update (11/10) (1/10)]"
  have r: "release_clock 0 ?i ?cs = 1100"
    by (simp add: PinchDetector_init_def PinchDetector_update_def Let_def)
  have e2: "PinchDetector_run ?i ?cs2 =
     \<lparr>pd_threshold = 1/20, pd_debounce_ms = 200, pd_hold_ms = 300, pd_state = RELEASED,
      pd_pinch_start_time = Some 1000, pd_last_trigger_time = 1100, pd_is_pinched = False,
      pd_was_pinched = True\<rparr>"
    by (simp add: PinchDetector_init_def PinchDetector_update_def Let_def)
  note t1 = pinch_debounce_from_release [OF refl, of "1/20" 200 300 ?cs "7/5" "3/100"]
  note t2 = pinch_debounce_from_release [OF refl, of "1/20" 200 300 ?cs2 "5/4" "1/100"]
  have a: "fst (PinchDetector_update (7/5) (3/100) (PinchDetector_run ?i ?cs)) = TRIGGERED"
    using t1 unfolding pinch_history_run r by simp
  have b: "fst (PinchDetector_update (5/4) (1/100) (PinchDetector_run ?i ?cs2)) = IDLE"
    using t2 unfolding e2 by simp
  have s: "pd_state (PinchDetector_run ?i ?cs) = IDLE" unfolding pinch_history_run by simp
  have s2: "pd_state (PinchDetector_run ?i ?cs2) = RELEASED" unfolding e2 by simp
  from s r a s2 b show ?thesis by blast
qed

section \<open>Properties of the gesture engine\<close>

lemma cursor_move_type:
  "process_cursor_move now pos e = Some g \<Longrightarrow> g_type g = CURSOR_MOVE"
  by (auto simp: process_cursor_move_def Gesture_init_def Let_def split: option.splits if_splits)

lemma left_pinch_types:
  "g \<in> set (fst (process_left_pinch now st pos e)) \<Longrightarrow>
   g_type g \<in> {DRAG_START, DRAG_MOVE, DRAG_END, LEFT_CLICK}"
  by (cases st) (auto simp: process_left_pinch_def Gesture_init_def split: if_splits)

lemma right_pinch_type:
  "process_right_pinch now st pos = Some g \<Longrightarrow> g_type g = RIGHT_CLICK"
  by (auto simp: process_right_pinch_def Gesture_init_def split: if_splits)

lemma process_shape:
  "fst (process clock hand e) = [] \<or>
   (\<exists>n1 n2 n3 st1 st2 pos e1.
      fst (process clock hand e) =
        ((case process_cursor_move n1 pos e1 of Some g \<Rightarrow> [g] | None \<Rightarrow> []) @
         fst (process_left_pinch n2 st1 pos e1)) @
        (case process_right_pinch n3 st2 pos of Some g \<Rightarrow> [g] | None \<Rightarrow> []))"
proof (cases "is_valid hand")
  case False
  then show ?thesis by (simp add: process_def split_beta)
next
  case True
  show ?thesis
  proof (cases "\<exists>thumb index middle.
      thumb_tip hand = Some thumb \<and> index_tip hand = Some index \<and> middle_tip hand = Some middle")
    case False
    then have "fst (process clock hand e) = []"
      using True by (auto simp: process_def split: option.splits)
    then show ?thesis ..
  next
    case True
    then obtain thumb index middle where
      t: "thumb_tip hand = Some thumb" "index_tip hand = Some index"
         "middle_tip hand = Some middle" by blast
    show ?thesis
      unfolding process_def Let_def split_beta t
      using \<open>is_valid hand\<close>
      apply (simp only: simp_thms if_False prod.case option.case fst_conv snd_conv)
      apply (rule disjI2)
      apply (intro exI)
      apply (rule refl)
      done
  qed
qed

text \<open>
  C10. Whatever the clock, the hand data and the state of the engine, every gesture in the
  list \<open>process\<close> returns is a \<open>CURSOR_MOVE\<close>, \<open>LEFT_CLICK\<close>, \<open>RIGHT_CLICK\<close>,
  \<open>DRAG_START\<close>, \<open>DRAG_MOVE\<close> or \<open>DRAG_END\<close>; none is \<open>SCROLL_UP\<close>, \<open>SCROLL_DOWN\<close>
  or \<open>NONE\<close>.
\<close>

theorem process_gesture_types:
  "\<forall>g \<in> set (fst (process clock hand e)).
     g_type g \<in> {CURSOR_MOVE, LEFT_CLICK, RIGHT_CLICK, DRAG_START, DRAG_MOVE, DRAG_END} \<and>
     g_type g \<noteq> SCROLL_UP \<and> g_type g \<noteq> SCROLL_DOWN \<and> g_type g \<noteq> NONE"
proof
  fix g assume g: "g \<in> set (fst (process clock hand e))"
  from process_shape [of clock hand e] g obtain n1 n2 n3 st1 st2 pos e1 where
    "g \<in> set ((case process_cursor_move n1 pos e1 of Some g \<Rightarrow> [g] | None \<Rightarrow> []) @
        fst (process_left_pinch n2 st1 pos e1) @
        (case process_right_pinch n3 st2 pos of Some g \<Rightarrow> [g] | None \<Rightarrow> []))"
    by auto
  then consider
      (c) "process_cursor_move n1 pos e1 = Some g"
    | (l) "g \<in> set (fst (process_left_pinch n2 st1 pos e1))"
    | (r) "process_right_pinch n3 st2 pos = Some g"
    by (auto split: option.splits)
  then have "g_type g \<in> {CURSOR_MOVE, LEFT_CLICK, RIGHT_CLICK, DRAG_START, DRAG_MOVE, DRAG_END}"
  proof cases
    case c
    then show ?thesis using cursor_move_type by simp
  next
    case l
    then show ?thesis using left_pinch_types [OF l] by auto
  next
    case r
    then show ?thesis using right_pinch_type by simp
  qed
  then show "g_type g \<in> {CURSOR_MOVE, LEFT_CLICK, RIGHT_CLICK, DRAG_START, DRAG_MOVE, DRAG_END} \<and>
     g_type g \<noteq> SCROLL_UP \<and> g_type g \<noteq> SCROLL_DOWN \<and> g_type g \<noteq> NONE"
    by auto
qed

lemma process_invalid_hand:
  "\<not> is_valid hand \<Longrightarrow>
   process clock hand e =
     ([],
      (if ge_is_dragging e
       then map (\<lambda>cb. (cb, Gesture_init (clock 0) DRAG_END
                          (case ge_last_position e of Some p \<Rightarrow> p | None \<Rightarrow> (0, 0)) []))
                (ge_callbacks e DRAG_END)
       else []),
      e\<lparr>ge_is_dragging := False,
        ge_left_pinch := PinchDetector_reset (ge_left_pinch e),
        ge_right_pinch := PinchDetector_reset (ge_right_pinch e),
        ge_last_position := None\<rparr>)"
  by (simp add: process_def reset_on_no_hand_def trigger_callbacks_def Gesture_init_def Let_def)

subsection \<open>The example drag\<close>

lemma pinching_hand_tips:
  "is_valid pinching_hand"
  "thumb_tip pinching_hand = Some \<lparr>p_x = 1/2, p_y = 1/2, p_z = 0\<rparr>"
  "index_tip pinching_hand = Some \<lparr>p_x = 1/2, p_y = 1/2, p_z = 0\<rparr>"
  "middle_tip pinching_hand = Some \<lparr>p_x = 1/2, p_y = 1/2, p_z = 1\<rparr>"
  by (simp_all add: pinching_hand_def thumb_tip_def index_tip_def middle_tip_def
      HandData_get_landmark_def)

lemma pinching_hand_distances:
  "Point3D_distance_to \<lparr>p_x = 1/2, p_y = 1/2, p_z = 0\<rparr> \<lparr>p_x = 1/2, p_y = 1/2, p_z = 0\<rparr> = 0"
  "Point3D_distance_to \<lparr>p_x = 1/2, p_y = 1/2, p_z = 0\<rparr> \<lparr>p_x = 1/2, p_y = 1/2, p_z = 1\<rparr> = 1"
  by (simp_all add: Point3D_distance_to_def)

lemma armed_engine_eq:
  "armed_engine =
     observed_engine
       \<lparr>ge_left_pinch := (PinchDetector_init (1/20) 200 300)
            \<lparr>pd_state := TRIGGERED, pd_pinch_start_time := Some 1000, pd_is_pinched := True\<rparr>,
        ge_last_position := Some (1/2, 1/2)\<rparr>"
  unfolding armed_engine_def
  by (simp add: process_def pinching_hand_tips pinching_hand_distances Let_def
      PinchDetector_update_def PinchDetector_init_def observed_engine_def on_gesture_def
      GestureEngine_init_def GestureConfig_default_def process_cursor_move_def
      process_left_pinch_def process_right_pinch_def)

lemma dragging_frame:
  "process (\<lambda>k. 2) pinching_hand armed_engine =
     ([Gesture_init 2 DRAG_START (1/2, 1/2) []], [],
      observed_engine
       \<lparr>ge_left_pinch := (PinchDetector_init (1/20) 200 300)
            \<lparr>pd_state := HOLDING, pd_pinch_start_time := Some 1000, pd_is_pinched := True,
             pd_was_pinched := True\<rparr>,
        ge_last_position := Some (1/2, 1/2), ge_is_dragging := True\<rparr>)"
  unfolding armed_engine_eq
  by (simp add: process_def pinching_hand_tips pinching_hand_distances Let_def
      PinchDetector_update_def PinchDetector_init_def observed_engine_def on_gesture_def
      GestureEngine_init_def GestureConfig_default_def process_cursor_move_def
      process_left_pinch_def process_right_pinch_def trigger_callbacks_def Gesture_init_def)

lemma dragging_engine_eq:
  "dragging_engine =
      observed_engine
       \<lparr>ge_left_pinch := (PinchDetector_init (1/20) 200 300)
            \<lparr>pd_state := HOLDING, pd_pinch_start_time := Some 1000, pd_is_pinched := True,
             pd_was_pinched := True\<rparr>,
        ge_last_position := Some (1/2, 1/2), ge_is_dragging := True\<rparr>"
  unfolding dragging_engine_def dragging_frame by simp

theorem process_gesture_types_witness:
  "Gesture_init 2 DRAG_START (1/2, 1/2) [] \<in> set (fst (process (\<lambda>k. 2) pinching_hand armed_engine)) \<and>
   g_type (Gesture_init 2 DRAG_START (1/2, 1/2) []) = DRAG_START \<and>
   g_type (Gesture_init 2 DRAG_START (1/2, 1/2) []) \<noteq> SCROLL_UP"
proof -
  have m: "Gesture_init 2 DRAG_START (1/2, 1/2) []
             \<in> set (fst (process (\<lambda>k. 2) pinching_hand armed_engine))"
    unfolding dragging_frame by simp
  from process_gesture_types [of "\<lambda>k. 2" pinching_hand armed_engine] m
  have "g_type (Gesture_init 2 DRAG_START (1/2, 1/2) []) \<noteq> SCROLL_UP" by blast
  moreover have "g_type (Gesture_init 2 DRAG_START (1/2, 1/2) []) = DRAG_START"
    by (simp add: Gesture_init_def)
  ultimately show ?thesis using m by blast
qed

subsection \<open>Losing the hand\<close>

text \<open>
  C1. Given a hand that is not valid while a drag is in progress, \<open>process\<close> is to
  return the one \<open>DRAG_END\<close> it makes, in a list of that single element. The engine of
  the example is in a drag when the hand is lost: the \<open>DRAG_END\<close> is made at the last
  known position and handed to the observer once, the drag state is cleared, and the
  list \<open>process\<close> returns is empty.
\<close>

theorem process_hand_lost_mid_drag:
  "ge_is_dragging dragging_engine \<and>
   ge_last_position dragging_engine = Some (1/2, 1/2) \<and>
   \<not> is_valid lost_hand \<and>
   fst (process (\<lambda>k. 3) lost_hand dragging_engine) = [] \<and>
   Gesture_init 3 DRAG_END (1/2, 1/2) [] \<notin> set (fst (process (\<lambda>k. 3) lost_hand dragging_engine)) \<and>
   length (fst (process (\<lambda>k. 3) lost_hand dragging_engine)) \<noteq> 1 \<and>
   fst (snd (process (\<lambda>k. 3) lost_hand dragging_engine))
     = [(7, Gesture_init 3 DRAG_END (1/2, 1/2) [])] \<and>
   \<not> ge_is_dragging (snd (snd (process (\<lambda>k. 3) lost_hand dragging_engine)))"
proof -
  have v: "\<not> is_valid lost_hand" by (simp add: lost_hand_def)
  have d: "ge_is_dragging dragging_engine"
    and l: "ge_last_position dragging_engine = Some (1/2, 1/2)"
    and c: "ge_callbacks dragging_engine DRAG_END = [7]"
    unfolding dragging_engine_eq
    by (simp_all add: observed_engine_def on_gesture_def GestureEngine_init_def)
  show ?thesis
    unfolding process_invalid_hand [OF v] using v d l c by simp
qed

end
